theory Spec2Isabelle
  imports Complex_Main "HOL-Library.Word"
begin

unbundle bit_operations_syntax

section \<open>Python values, exceptions and the log\<close>

text \<open>
  The driver \<^verbatim>\<open>starlink.py\<close> is embedded function by function. A Python call either
  returns a value or raises; what it wrote before raising stays written, so every
  operation returns its outcome together with the state it leaves behind.
  A Python float is a double: a finite value, modelled as a \<open>real\<close>, or NaN, or
  one of the two infinities.
\<close>

datatype grpc_code = UNAVAILABLE | DEADLINE_EXCEEDED | OTHER_CODE string

datatype py_error =
    RpcError grpc_code string
  | AttributeError string string
  | TypeError string
  | ValueError string
  | OverflowError string
  | KeyError string

datatype 'a result = Returned 'a | Raised py_error

datatype pyfloat = Finite real | NaN | PosInf | NegInf

datatype pyval = PyNone | PyInt int | PyFloat pyfloat | PyStr string

fun truthy :: "pyval \<Rightarrow> bool" where
  "truthy PyNone = False"
| "truthy (PyInt i) = (i \<noteq> 0)"
| "truthy (PyFloat x) = (x \<noteq> Finite 0)"
| "truthy (PyStr s) = (s \<noteq> [])"

datatype log_level = INFO | WARNING | ERROR

datatype log_message =
    Starlink_request_failed string int
  | gRPC_error_during_request grpc_code string
  | Starlink_location_request_failed string int
  | Starting_driver_for_device string
  | Updated_position pyfloat pyfloat pyfloat
  | No_GPS_fix_available
  | Service_started_entering_main_loop

type_synonym log_entry = "log_level \<times> log_message"

section \<open>The remote procedure interface\<close>

text \<open>
  The generated protobuf classes are not part of the driver file; they are taken at
  their interface. Reading an unset message field of a protobuf response gives the
  default message, never \<^verbatim>\<open>None\<close>; \<^verbatim>\<open>HasField\<close> is the \<open>option\<close>.
\<close>

datatype request = Request_get_device_info | Request_get_location

record status =
  code :: int
  message :: string

record LLAPosition =
  lat :: pyfloat
  lon :: pyfloat
  alt :: pyfloat

record device_info =
  info_id :: string
  software_version :: "string option"
  hardware_version :: "string option"

record response =
  status :: status
  get_device_info :: device_info
  location :: "LLAPosition option"

type_synonym handle = "request \<Rightarrow> real \<Rightarrow> (grpc_code \<times> string) + response"

section \<open>Dishy\<close>

record Dishy =
  target :: string
  stub :: handle
  timeout :: real

text \<open>
  \<^verbatim>\<open>Dishy.__init__\<close>. The answers of the device behind the channel are the parameter
  \<open>net\<close>: \<open>Inl\<close> is the \<^verbatim>\<open>grpc.RpcError\<close> that \<^verbatim>\<open>stub.Handle\<close> raises.
\<close>

definition Dishy_init :: "handle \<Rightarrow> string \<Rightarrow> Dishy" where
  "Dishy_init net tgt = \<lparr>target = tgt, stub = net, timeout = 10\<rparr>"

definition make_request :: "Dishy \<Rightarrow> request \<Rightarrow> log_entry list \<Rightarrow> response option result \<times> log_entry list" where
  "make_request self req lg =
     (case stub self req (timeout self) of
        Inr r \<Rightarrow>
          if code (status r) \<noteq> 0
          then (Returned None, lg @ [(WARNING, Starlink_request_failed (message (status r)) (code (status r)))])
          else (Returned (Some r), lg)
      | Inl (c, details) \<Rightarrow>
          (Raised (RpcError c details), lg @ [(ERROR, gRPC_error_during_request c details)]))"

definition Dishy_get_device_info :: "Dishy \<Rightarrow> log_entry list \<Rightarrow> device_info result \<times> log_entry list" where
  "Dishy_get_device_info self lg =
     (case make_request self Request_get_device_info lg of
        (Raised e, lg1) \<Rightarrow> (Raised e, lg1)
      | (Returned None, lg1) \<Rightarrow> (Raised (AttributeError ''NoneType'' ''get_device_info''), lg1)
      | (Returned (Some r), lg1) \<Rightarrow> (Returned (get_device_info r), lg1))"

record position =
  latitude :: "pyfloat option"
  longitude :: "pyfloat option"
  altitude :: "pyfloat option"

definition get_position :: "Dishy \<Rightarrow> log_entry list \<Rightarrow> position result \<times> log_entry list" where
  "get_position self lg =
     (case make_request self Request_get_location lg of
        (Raised e, lg1) \<Rightarrow> (Raised e, lg1)
      | (Returned None, lg1) \<Rightarrow> (Raised (AttributeError ''NoneType'' ''status''), lg1)
      | (Returned (Some r), lg1) \<Rightarrow>
          if code (status r) \<noteq> 0
          then (Returned \<lparr>latitude = None, longitude = None, altitude = None\<rparr>,
                lg1 @ [(WARNING, Starlink_location_request_failed (message (status r)) (code (status r)))])
          else
            (Returned
               \<lparr>latitude = (case location r of Some l \<Rightarrow> Some (lat l) | None \<Rightarrow> None),
                longitude = (case location r of Some l \<Rightarrow> Some (lon l) | None \<Rightarrow> None),
                altitude = (case location r of Some l \<Rightarrow> Some (alt l) | None \<Rightarrow> None)\<rparr>,
             lg1))"

section \<open>IdentityResolver: SHA-256 and the short id\<close>

text \<open>
  \<^verbatim>\<open>sha256(info.id.encode()).hexdigest()[:8]\<close>. The hash of \<^verbatim>\<open>hashlib\<close> is
  written out after FIPS 180-4 on 32-bit words, so that the short id can be computed.
  A \<open>string\<close> is the byte sequence that \<^verbatim>\<open>encode()\<close> produces.
\<close>

type_synonym w32 = "32 word"
type_synonym byte = "8 word"

definition rotr :: "nat \<Rightarrow> w32 \<Rightarrow> w32" where
  "rotr n x = (drop_bit n x) OR (push_bit (32 - n) x)"

definition Ch :: "w32 \<Rightarrow> w32 \<Rightarrow> w32 \<Rightarrow> w32" where
  "Ch x y z = (x AND y) XOR (NOT x AND z)"

definition Maj :: "w32 \<Rightarrow> w32 \<Rightarrow> w32 \<Rightarrow> w32" where
  "Maj x y z = (x AND y) XOR (x AND z) XOR (y AND z)"

definition Sigma0 :: "w32 \<Rightarrow> w32" where
  "Sigma0 x = rotr 2 x XOR rotr 13 x XOR rotr 22 x"

definition Sigma1 :: "w32 \<Rightarrow> w32" where
  "Sigma1 x = rotr 6 x XOR rotr 11 x XOR rotr 25 x"

definition sigma0 :: "w32 \<Rightarrow> w32" where
  "sigma0 x = rotr 7 x XOR rotr 18 x XOR drop_bit 3 x"

definition sigma1 :: "w32 \<Rightarrow> w32" where
  "sigma1 x = rotr 17 x XOR rotr 19 x XOR drop_bit 10 x"

definition K :: "w32 list" where
  "K =
     [0x428a2f98, 0x71374491, 0xb5c0fbcf, 0xe9b5dba5, 0x3956c25b, 0x59f111f1, 0x923f82a4, 0xab1c5ed5] @
     [0xd807aa98, 0x12835b01, 0x243185be, 0x550c7dc3, 0x72be5d74, 0x80deb1fe, 0x9bdc06a7, 0xc19bf174] @
     [0xe49b69c1, 0xefbe4786, 0x0fc19dc6, 0x240ca1cc, 0x2de92c6f, 0x4a7484aa, 0x5cb0a9dc, 0x76f988da] @
     [0x983e5152, 0xa831c66d, 0xb00327c8, 0xbf597fc7, 0xc6e00bf3, 0xd5a79147, 0x06ca6351, 0x14292967] @
     [0x27b70a85, 0x2e1b2138, 0x4d2c6dfc, 0x53380d13, 0x650a7354, 0x766a0abb, 0x81c2c92e, 0x92722c85] @
     [0xa2bfe8a1, 0xa81a664b, 0xc24b8b70, 0xc76c51a3, 0xd192e819, 0xd6990624, 0xf40e3585, 0x106aa070] @
     [0x19a4c116, 0x1e376c08, 0x2748774c, 0x34b0bcb5, 0x391c0cb3, 0x4ed8aa4a, 0x5b9cca4f, 0x682e6ff3] @
     [0x748f82ee, 0x78a5636f, 0x84c87814, 0x8cc70208, 0x90befffa, 0xa4506ceb, 0xbef9a3f7, 0xc67178f2]"

type_synonym hash_state = "w32 \<times> w32 \<times> w32 \<times> w32 \<times> w32 \<times> w32 \<times> w32 \<times> w32"

definition H0 :: hash_state where
  "H0 = (0x6a09e667, 0xbb67ae85, 0x3c6ef372, 0xa54ff53a,
         0x510e527f, 0x9b05688c, 0x1f83d9ab, 0x5be0cd19)"

definition be64 :: "64 word \<Rightarrow> byte list" where
  "be64 n = map (\<lambda>i. ucast (drop_bit (8 * i) n)) [7, 6, 5, 4, 3, 2, 1, 0]"

definition pad :: "byte list \<Rightarrow> byte list" where
  "pad m = m @ [0x80] @ replicate ((119 - length m mod 64) mod 64) 0 @ be64 (of_nat (8 * length m))"

fun chunks :: "nat \<Rightarrow> nat \<Rightarrow> 'a list \<Rightarrow> 'a list list" where
  "chunks 0 k xs = []"
| "chunks (Suc n) k xs = take k xs # chunks n k (drop k xs)"

definition be32 :: "byte list \<Rightarrow> w32" where
  "be32 bs = foldl (\<lambda>acc b. push_bit 8 acc OR ucast b) 0 bs"

fun schedule :: "nat \<Rightarrow> w32 list \<Rightarrow> w32 list" where
  "schedule 0 w = w"
| "schedule (Suc n) w =
     schedule n (w @ [sigma1 (w ! (length w - 2)) + w ! (length w - 7)
                      + sigma0 (w ! (length w - 15)) + w ! (length w - 16)])"

fun round :: "hash_state \<Rightarrow> w32 \<times> w32 \<Rightarrow> hash_state" where
  "round (a, b, c, d, e, f, g, h) (k, w) =
     (let T1 = h + Sigma1 e + Ch e f g + k + w;
          T2 = Sigma0 a + Maj a b c
      in (T1 + T2, a, b, c, d + T1, e, f, g))"

fun add_state :: "hash_state \<Rightarrow> hash_state \<Rightarrow> hash_state" where
  "add_state (a, b, c, d, e, f, g, h) (a', b', c', d', e', f', g', h') =
     (a + a', b + b', c + c', d + d', e + e', f + f', g + g', h + h')"

definition compress :: "hash_state \<Rightarrow> byte list \<Rightarrow> hash_state" where
  "compress hs block =
     add_state hs (foldl round hs (zip K (schedule 48 (map be32 (chunks 16 4 block)))))"

definition word_bytes :: "w32 \<Rightarrow> byte list" where
  "word_bytes w = [ucast (drop_bit 24 w), ucast (drop_bit 16 w), ucast (drop_bit 8 w), ucast w]"

fun digest :: "hash_state \<Rightarrow> byte list" where
  "digest (a, b, c, d, e, f, g, h) =
     word_bytes a @ word_bytes b @ word_bytes c @ word_bytes d @
     word_bytes e @ word_bytes f @ word_bytes g @ word_bytes h"

definition sha256 :: "byte list \<Rightarrow> byte list" where
  "sha256 m = digest (foldl compress H0 (chunks (length (pad m) div 64) 64 (pad m)))"

definition hex_digit :: "byte \<Rightarrow> char" where
  "hex_digit n = ''0123456789abcdef'' ! unat (n AND 0xF)"

definition hex_byte :: "byte \<Rightarrow> string" where
  "hex_byte b = [hex_digit (drop_bit 4 b), hex_digit b]"

definition hexdigest :: "byte list \<Rightarrow> string" where
  "hexdigest bs = concat (map hex_byte bs)"

definition encode :: "string \<Rightarrow> byte list" where
  "encode s = map (\<lambda>c. of_char c) s"

definition short_id :: "string \<Rightarrow> string" where
  "short_id raw = take 8 (hexdigest (sha256 (encode raw)))"

section \<open>The published tree and the settings store\<close>

text \<open>
  \<^verbatim>\<open>VeDbusService\<close> and \<^verbatim>\<open>SettingsDevice\<close> come from the Victron library, outside the
  driver file. They are taken at their interface: the published object is dictionary-like
  (\<^verbatim>\<open>add_path\<close>, item assignment, \<^verbatim>\<open>register\<close>), the settings object loads each
  supported setting from the persisted store, seeding the default when the key is
  absent, and reports a change made by another client to its \<^verbatim>\<open>eventCallback\<close> when
  one was given.
\<close>

datatype change_callback = Lambda_handle_writable_setting_change string

datatype timeout_callback = Service_refresh

record VeDbusService =
  bus_name :: string
  tree :: "string \<rightharpoonup> pyval"
  writeable :: "string list"
  onchangecallback :: "string \<rightharpoonup> change_callback"
  registered :: bool

record SettingsDevice =
  setting_path :: "string \<rightharpoonup> string"
  setting_value :: "string \<rightharpoonup> pyval"
  eventCallback :: "change_callback option"

record world =
  logs :: "log_entry list"
  bus :: "string list"
  store :: "string \<rightharpoonup> pyval"
  store_writes :: nat

definition VeDbusService_init :: "string \<Rightarrow> bool \<Rightarrow> VeDbusService" where
  "VeDbusService_init name register =
     \<lparr>bus_name = name, tree = Map.empty, writeable = [], onchangecallback = Map.empty,
      registered = register\<rparr>"

definition add_path :: "string \<Rightarrow> pyval \<Rightarrow> VeDbusService \<Rightarrow> VeDbusService" where
  "add_path path v d = d\<lparr>tree := (tree d)(path \<mapsto> v)\<rparr>"

definition add_writeable_path :: "string \<Rightarrow> pyval \<Rightarrow> change_callback \<Rightarrow> VeDbusService \<Rightarrow> VeDbusService" where
  "add_writeable_path path v cb d =
     d\<lparr>tree := (tree d)(path \<mapsto> v), writeable := writeable d @ [path],
       onchangecallback := (onchangecallback d)(path \<mapsto> cb)\<rparr>"

definition setitem :: "string \<Rightarrow> pyval \<Rightarrow> VeDbusService \<Rightarrow> VeDbusService" where
  "setitem path v d = d\<lparr>tree := (tree d)(path \<mapsto> v)\<rparr>"

definition register :: "VeDbusService \<Rightarrow> world \<Rightarrow> VeDbusService \<times> world" where
  "register d w = (d\<lparr>registered := True\<rparr>, w\<lparr>bus := bus w @ [bus_name d]\<rparr>)"

definition store_write :: "string \<Rightarrow> pyval \<Rightarrow> world \<Rightarrow> world" where
  "store_write path v w = w\<lparr>store := (store w)(path \<mapsto> v), store_writes := Suc (store_writes w)\<rparr>"

fun add_settings :: "(string \<times> string \<times> pyval \<times> int \<times> int) list \<Rightarrow> SettingsDevice \<Rightarrow> world \<Rightarrow> SettingsDevice \<times> world" where
  "add_settings [] sd w = (sd, w)"
| "add_settings ((name, path, dflt, mn, mx) # rest) sd w =
     (case store w path of
        Some v \<Rightarrow>
          add_settings rest
            (sd\<lparr>setting_path := (setting_path sd)(name \<mapsto> path),
                setting_value := (setting_value sd)(name \<mapsto> v)\<rparr>) w
      | None \<Rightarrow>
          add_settings rest
            (sd\<lparr>setting_path := (setting_path sd)(name \<mapsto> path),
                setting_value := (setting_value sd)(name \<mapsto> dflt)\<rparr>)
            (store_write path dflt w))"

definition SettingsDevice_init :: "(string \<times> string \<times> pyval \<times> int \<times> int) list \<Rightarrow> change_callback option \<Rightarrow> world \<Rightarrow> SettingsDevice \<times> world" where
  "SettingsDevice_init supportedSettings cb w =
     add_settings supportedSettings
       \<lparr>setting_path = Map.empty, setting_value = Map.empty, eventCallback = cb\<rparr> w"

definition settings_getitem :: "SettingsDevice \<Rightarrow> string \<Rightarrow> pyval result" where
  "settings_getitem sd name =
     (case setting_value sd name of Some v \<Rightarrow> Returned v | None \<Rightarrow> Raised (KeyError name))"

section \<open>DbusService\<close>

record DbusService =
  dishy :: Dishy
  service_id :: string
  servicename :: string
  dbusservice :: VeDbusService
  settings :: SettingsDevice

text \<open>
  Python's \<^verbatim>\<open>int()\<close> of a finite float drops the fraction (towards zero). Of NaN it
  raises \<^verbatim>\<open>ValueError\<close>, of an infinity \<^verbatim>\<open>OverflowError\<close>, of \<^verbatim>\<open>None\<close>
  \<^verbatim>\<open>TypeError\<close>.
\<close>

definition int_of_float :: "real \<Rightarrow> int" where
  "int_of_float x = (if 0 \<le> x then \<lfloor>x\<rfloor> else \<lceil>x\<rceil>)"

definition py_int :: "pyfloat option \<Rightarrow> int result" where
  "py_int v =
     (case v of
        None \<Rightarrow> Raised (TypeError ''int() argument NoneType'')
      | Some (Finite x) \<Rightarrow> Returned (int_of_float x)
      | Some NaN \<Rightarrow> Raised (ValueError ''cannot convert float NaN to integer'')
      | Some PosInf \<Rightarrow> Raised (OverflowError ''cannot convert float infinity to integer'')
      | Some NegInf \<Rightarrow> Raised (OverflowError ''cannot convert float infinity to integer''))"

definition setup_settings :: "string \<Rightarrow> world \<Rightarrow> SettingsDevice \<times> world" where
  "setup_settings sid w =
     (let settings_path_prefix = ''/Settings/Devices/starlink_'' @ sid;
          supported_settings = [(''CustomName'', settings_path_prefix @ ''/CustomName'', PyStr ''Starlink'', 0, 0)]
      in SettingsDevice_init supported_settings None w)"

definition refresh :: "DbusService \<Rightarrow> world \<Rightarrow> pyval result \<times> DbusService \<times> world" where
  "refresh self w =
     (case get_position (dishy self) (logs w) of
        (Raised e, lg) \<Rightarrow> (Raised e, self, w\<lparr>logs := lg\<rparr>)
      | (Returned loc, lg) \<Rightarrow>
          if latitude loc \<noteq> None \<and> longitude loc \<noteq> None
          then
            (let d1 = setitem ''/Fix'' (PyInt 1) (dbusservice self);
                 d2 = setitem ''/Position/Latitude'' (PyFloat (the (latitude loc))) d1;
                 d3 = setitem ''/Position/Longitude'' (PyFloat (the (longitude loc))) d2
             in case py_int (altitude loc) of
                  Raised e \<Rightarrow> (Raised e, self\<lparr>dbusservice := d3\<rparr>, w\<lparr>logs := lg\<rparr>)
                | Returned a \<Rightarrow>
                    (Returned PyNone,
                     self\<lparr>dbusservice := setitem ''/Position/Altitude'' (PyInt a) d3\<rparr>,
                     w\<lparr>logs := lg @ [(INFO, Updated_position (the (latitude loc)) (the (longitude loc)) (the (altitude loc)))]\<rparr>))
          else
            (Returned PyNone,
             self\<lparr>dbusservice := setitem ''/Fix'' (PyInt 0) (dbusservice self)\<rparr>,
             w\<lparr>logs := lg @ [(INFO, No_GPS_fix_available)]\<rparr>))"

definition DbusService_init :: "handle \<Rightarrow> string \<Rightarrow> string \<Rightarrow> world \<Rightarrow> DbusService result \<times> world" where
  "DbusService_init net VERSION tgt w =
     (let d = Dishy_init net tgt in
      case Dishy_get_device_info d (logs w) of
        (Raised e, lg) \<Rightarrow> (Raised e, w\<lparr>logs := lg\<rparr>)
      | (Returned info, lg) \<Rightarrow>
          (let sid = short_id (info_id info);
               w1 = w\<lparr>logs := lg @ [(INFO, Starting_driver_for_device sid)]\<rparr>;
               name = ''com.victronenergy.gps.starlink_'' @ sid;
               t = VeDbusService_init name False;
               t = add_path ''/Management/ProcessName'' (PyStr ''dbus-starlink'') t;
               t = add_path ''/Management/ProcessVersion'' (PyStr VERSION) t;
               t = add_path ''/Management/Connection'' (PyStr ''gRPC'') t;
               t = add_path ''/DeviceInstance'' (PyInt 1) t;
               t = add_path ''/ProductId'' (PyInt 45108) t;
               t = add_path ''/ProductName'' (PyStr ''Starlink'') t;
               t = add_path ''/FirmwareVersion''
                     (PyStr (case software_version info of Some v \<Rightarrow> v | None \<Rightarrow> ''N/A'')) t;
               t = add_path ''/HardwareVersion''
                     (PyStr (case hardware_version info of Some v \<Rightarrow> v | None \<Rightarrow> ''N/A'')) t;
               t = add_path ''/Connected'' (PyInt 1) t;
               t = add_path ''/Serial'' (PyStr (info_id info)) t;
               t = add_path ''/State'' (PyInt 0x100) t;
               t = add_path ''/Fix'' (PyInt 0) t;
               t = add_path ''/Position/Latitude'' (PyFloat (Finite 0)) t;
               t = add_path ''/Position/Longitude'' (PyFloat (Finite 0)) t;
               t = add_path ''/Position/Altitude'' (PyFloat (Finite 0)) t;
               (sd, w2) = setup_settings sid w1
           in case settings_getitem sd ''CustomName'' of
                Raised e \<Rightarrow> (Raised e, w2)
              | Returned cn \<Rightarrow>
                  (let t = add_writeable_path ''/CustomName'' cn
                             (Lambda_handle_writable_setting_change ''CustomName'') t;
                       (t, w3) = register t w2;
                       self = \<lparr>dishy = d, service_id = sid, servicename = name,
                               dbusservice = t, settings = sd\<rparr>
                   in case refresh self w3 of
                        (Raised e, self1, w4) \<Rightarrow> (Raised e, w4)
                      | (Returned v, self1, w4) \<Rightarrow> (Returned self1, w4))))"

text \<open>
  The attributes an instance of \<^verbatim>\<open>DbusService\<close> has: the three methods of the class and
  the five fields that \<^verbatim>\<open>__init__\<close> assigns. Looking up any other name raises.
\<close>

datatype attribute =
    Method_init | Method_setup_settings | Method_refresh
  | Field_dishy | Field_id | Field_servicename | Field_dbusservice | Field_settings

definition DbusService_getattr :: "string \<Rightarrow> attribute result" where
  "DbusService_getattr name =
     (if name = ''__init__'' then Returned Method_init
      else if name = ''_setup_settings'' then Returned Method_setup_settings
      else if name = ''refresh'' then Returned Method_refresh
      else if name = ''dishy'' then Returned Field_dishy
      else if name = ''id'' then Returned Field_id
      else if name = ''servicename'' then Returned Field_servicename
      else if name = ''_dbusservice'' then Returned Field_dbusservice
      else if name = ''_settings'' then Returned Field_settings
      else Raised (AttributeError ''DbusService'' name))"

text \<open>
  The change callback of \<^verbatim>\<open>/CustomName\<close>:
  \<^verbatim>\<open>lambda p, v, key=custom_name_key: self._handle_writable_setting_change(key, p, v)\<close>.
  None of the instance's attributes accepts the three arguments, so a name that is
  found ends in a \<^verbatim>\<open>TypeError\<close>.
\<close>

fun call_change_callback :: "change_callback \<Rightarrow> string \<Rightarrow> pyval \<Rightarrow> DbusService \<Rightarrow> world \<Rightarrow> pyval result \<times> DbusService \<times> world" where
  "call_change_callback (Lambda_handle_writable_setting_change key) p v self w =
     (case DbusService_getattr ''_handle_writable_setting_change'' of
        Raised e \<Rightarrow> (Raised e, self, w)
      | Returned a \<Rightarrow> (Raised (TypeError ''wrong arguments''), self, w))"

text \<open>
  A client outside the process writes a persisted setting: the store takes the write,
  the settings object refreshes its copy of every setting kept at that path and calls
  its \<^verbatim>\<open>eventCallback\<close> unless that is \<^verbatim>\<open>None\<close>.
\<close>

definition external_setting_change :: "string \<Rightarrow> pyval \<Rightarrow> DbusService \<Rightarrow> world \<Rightarrow> DbusService \<times> world" where
  "external_setting_change path v self w =
     (let w1 = store_write path v w;
          sd = settings self;
          sd1 = sd\<lparr>setting_value :=
                    (\<lambda>name. if setting_path sd name = Some path then Some v else setting_value sd name)\<rparr>;
          self1 = self\<lparr>settings := sd1\<rparr>
      in case eventCallback sd of
           None \<Rightarrow> (self1, w1)
         | Some cb \<Rightarrow> (case call_change_callback cb path v self1 w1 of (r, self2, w2) \<Rightarrow> (self2, w2)))"

section \<open>The main loop\<close>

text \<open>
  \<^verbatim>\<open>GLib.timeout_add(interval, callback)\<close> calls the callback at every expiry until it
  returns a false value, and then drops the source; a callback that raises counts as
  false. One element of the list given to \<open>mainloop_run\<close> is one expiry of the
  60000 ms interval, carrying the answers of the device at that time.
\<close>

record mainloop =
  service :: DbusService
  world :: world
  sources :: "(nat \<times> timeout_callback) list"
  timer_calls :: nat

fun call_timeout_callback :: "timeout_callback \<Rightarrow> DbusService \<Rightarrow> world \<Rightarrow> pyval result \<times> DbusService \<times> world" where
  "call_timeout_callback Service_refresh self w = refresh self w"

definition keep_source :: "pyval result \<Rightarrow> bool" where
  "keep_source r = (case r of Returned v \<Rightarrow> truthy v | Raised e \<Rightarrow> False)"

fun dispatch :: "(nat \<times> timeout_callback) list \<Rightarrow> mainloop \<Rightarrow> mainloop" where
  "dispatch [] m = m\<lparr>sources := []\<rparr>"
| "dispatch ((ms, cb) # rest) m =
     (case call_timeout_callback cb (service m) (world m) of
        (r, self1, w1) \<Rightarrow>
          (let m1 = dispatch rest (m\<lparr>service := self1, world := w1, timer_calls := Suc (timer_calls m)\<rparr>)
           in m1\<lparr>sources := (if keep_source r then [(ms, cb)] else []) @ sources m1\<rparr>))"

definition timeout_add :: "nat \<Rightarrow> timeout_callback \<Rightarrow> mainloop \<Rightarrow> mainloop" where
  "timeout_add ms cb m = m\<lparr>sources := sources m @ [(ms, cb)]\<rparr>"

definition set_net :: "handle \<Rightarrow> DbusService \<Rightarrow> DbusService" where
  "set_net net self = self\<lparr>dishy := (dishy self)\<lparr>stub := net\<rparr>\<rparr>"

fun mainloop_run :: "handle list \<Rightarrow> mainloop \<Rightarrow> mainloop" where
  "mainloop_run [] m = m"
| "mainloop_run (net # nets) m =
     mainloop_run nets (dispatch (sources m) (m\<lparr>service := set_net net (service m)\<rparr>))"

definition main :: "handle \<Rightarrow> string \<Rightarrow> handle list \<Rightarrow> world \<Rightarrow> mainloop result \<times> world" where
  "main net VERSION nets w =
     (case DbusService_init net VERSION ''192.168.100.1:9200'' w of
        (Raised e, w1) \<Rightarrow> (Raised e, w1)
      | (Returned svc, w1) \<Rightarrow>
          (let m = timeout_add 60000 Service_refresh
                     \<lparr>service = svc, world = w1, sources = [], timer_calls = 0\<rparr>;
               m = m\<lparr>world := (world m)\<lparr>logs := logs (world m) @ [(INFO, Service_started_entering_main_loop)]\<rparr>\<rparr>;
               m = mainloop_run nets m
           in (Returned m, world m)))"

definition telemetry :: "DbusService \<Rightarrow> pyval option \<times> pyval option \<times> pyval option \<times> pyval option" where
  "telemetry self =
     (tree (dbusservice self) ''/Fix'', tree (dbusservice self) ''/Position/Latitude'',
      tree (dbusservice self) ''/Position/Longitude'', tree (dbusservice self) ''/Position/Altitude'')"

section \<open>Reachable publisher states\<close>

text \<open>
  A publisher state is reachable when \<^verbatim>\<open>__init__\<close> returned it, or when it follows a
  reachable one by a refresh (against whatever the device answers then) or by a change
  of a persisted setting from outside.
\<close>

inductive reachable :: "DbusService \<Rightarrow> bool" where
  reachable_init: "DbusService_init net VERSION tgt w = (Returned self, w1) \<Longrightarrow> reachable self"
| reachable_refresh: "reachable self \<Longrightarrow> reachable (fst (snd (refresh (set_net net self) w)))"
| reachable_external: "reachable self \<Longrightarrow> reachable (fst (external_setting_change path v self w))"

section \<open>Example devices and states\<close>

definition w0 :: world where
  "w0 = \<lparr>logs = [], bus = [], store = Map.empty, store_writes = 0\<rparr>"

definition device :: "int \<Rightarrow> string \<Rightarrow> LLAPosition option \<Rightarrow> handle" where
  "device c msg l req t =
     Inr \<lparr>status = \<lparr>code = c, message = msg\<rparr>,
          get_device_info = \<lparr>info_id = ''KU123456789'', software_version = Some ''2024.05.0'',
                             hardware_version = None\<rparr>,
          location = l\<rparr>"

text \<open>A device that answers every request with application status 1.\<close>

definition no_fix_net :: handle where
  "no_fix_net = device 1 ''no fix'' None"

text \<open>A device that answers with status 0 and no location.\<close>

definition no_location_net :: handle where
  "no_location_net = device 0 [] None"

text \<open>Devices that answer with status 0 and a location.\<close>

definition home_net :: handle where
  "home_net = device 0 [] (Some \<lparr>lat = Finite 37, lon = Finite (-122), alt = Finite 10.4\<rparr>)"

definition fix_net :: handle where
  "fix_net = device 0 [] (Some \<lparr>lat = Finite 47.6, lon = Finite (-122.3), alt = Finite 15.7\<rparr>)"

text \<open>A device that answers with status 0 and a location whose altitude is NaN.\<close>

definition nan_altitude_net :: handle where
  "nan_altitude_net = device 0 [] (Some \<lparr>lat = Finite 47.6, lon = Finite (-122.3), alt = NaN\<rparr>)"

text \<open>A channel on which every request times out.\<close>

definition timeout_net :: handle where
  "timeout_net req t = Inl (DEADLINE_EXCEEDED, ''Deadline Exceeded'')"

text \<open>
  The publisher of device \<^verbatim>\<open>KU123456789\<close> as \<^verbatim>\<open>__init__\<close> leaves it when the device
  reports the position \<open>(37, -122, 10.4)\<close>; \<open>net\<close> is what the device answers next.
\<close>

definition example_service :: "handle \<Rightarrow> DbusService" where
  "example_service net =
     \<lparr>dishy = Dishy_init net ''192.168.100.1:9200'',
      service_id = short_id ''KU123456789'',
      servicename = ''com.victronenergy.gps.starlink_'' @ short_id ''KU123456789'',
      dbusservice =
        \<lparr>bus_name = ''com.victronenergy.gps.starlink_'' @ short_id ''KU123456789'',
         tree =
           [''/Management/ProcessName'' \<mapsto> PyStr ''dbus-starlink'',
            ''/Management/ProcessVersion'' \<mapsto> PyStr ''1.0'',
            ''/Management/Connection'' \<mapsto> PyStr ''gRPC'',
            ''/DeviceInstance'' \<mapsto> PyInt 1,
            ''/ProductId'' \<mapsto> PyInt 45108,
            ''/ProductName'' \<mapsto> PyStr ''Starlink'',
            ''/FirmwareVersion'' \<mapsto> PyStr ''2024.05.0'',
            ''/HardwareVersion'' \<mapsto> PyStr ''N/A'',
            ''/Connected'' \<mapsto> PyInt 1,
            ''/Serial'' \<mapsto> PyStr ''KU123456789'',
            ''/State'' \<mapsto> PyInt 256,
            ''/CustomName'' \<mapsto> PyStr ''Starlink'',
            ''/Fix'' \<mapsto> PyInt 1,
            ''/Position/Latitude'' \<mapsto> PyFloat (Finite 37),
            ''/Position/Longitude'' \<mapsto> PyFloat (Finite (-122)),
            ''/Position/Altitude'' \<mapsto> PyInt 10],
         writeable = [''/CustomName''],
         onchangecallback = [''/CustomName'' \<mapsto> Lambda_handle_writable_setting_change ''CustomName''],
         registered = True\<rparr>,
      settings =
        \<lparr>setting_path =
           [''CustomName'' \<mapsto> ''/Settings/Devices/starlink_'' @ short_id ''KU123456789'' @ ''/CustomName''],
         setting_value = [''CustomName'' \<mapsto> PyStr ''Starlink''],
         eventCallback = None\<rparr>\<rparr>"

text \<open>The world that \<^verbatim>\<open>__init__\<close> leaves behind there, starting from nothing.\<close>

definition example_world :: world where
  "example_world =
     \<lparr>logs = [(INFO, Starting_driver_for_device (short_id ''KU123456789'')),
              (INFO, Updated_position (Finite 37) (Finite (-122)) (Finite 10.4))],
      bus = [''com.victronenergy.gps.starlink_'' @ short_id ''KU123456789''],
      store = [''/Settings/Devices/starlink_'' @ short_id ''KU123456789'' @ ''/CustomName'' \<mapsto> PyStr ''Starlink''],
      store_writes = 1\<rparr>"


section \<open>What the client returns\<close>

text \<open>
  Claim C1. A well-formed location response with a non-zero application status should
  give the all-absent position without an error. In the code \<^verbatim>\<open>_make_request\<close>
  already returns \<^verbatim>\<open>None\<close> for such a response, and \<^verbatim>\<open>get_position\<close> then reads
  \<^verbatim>\<open>r.status\<close> of \<^verbatim>\<open>None\<close>: it raises \<^verbatim>\<open>AttributeError\<close>, which is no transport
  failure. Evaluated at a response with status code 1.
\<close>

theorem get_position_nonzero_status_raises:
  "get_position (Dishy_init no_fix_net ''192.168.100.1:9200'') [] =
     (Raised (AttributeError ''NoneType'' ''status''),
      [(WARNING, Starlink_request_failed ''no fix'' 1)])"
  by (simp add: get_position_def make_request_def Dishy_init_def no_fix_net_def device_def)

lemma get_position_transport:
  "stub d Request_get_location (timeout d) = Inl (c, details) \<Longrightarrow>
   get_position d lg =
     (Raised (RpcError c details), lg @ [(ERROR, gRPC_error_during_request c details)])"
  by (simp add: get_position_def make_request_def)

lemma get_position_nonzero:
  "stub d Request_get_location (timeout d) = Inr r \<Longrightarrow> code (status r) \<noteq> 0 \<Longrightarrow>
   get_position d lg =
     (Raised (AttributeError ''NoneType'' ''status''),
      lg @ [(WARNING, Starlink_request_failed (message (status r)) (code (status r)))])"
  by (simp add: get_position_def make_request_def)

lemma get_position_zero:
  "stub d Request_get_location (timeout d) = Inr r \<Longrightarrow> code (status r) = 0 \<Longrightarrow>
   get_position d lg =
     (Returned \<lparr>latitude = map_option lat (location r), longitude = map_option lon (location r),
                 altitude = map_option alt (location r)\<rparr>, lg)"
  by (simp add: get_position_def make_request_def split: option.splits)

lemma get_position_cases:
  obtains (transport) c details where "stub d Request_get_location (timeout d) = Inl (c, details)"
  | (nonzero) r where "stub d Request_get_location (timeout d) = Inr r" "code (status r) \<noteq> 0"
  | (zero) r where "stub d Request_get_location (timeout d) = Inr r" "code (status r) = 0"
  by (cases "stub d Request_get_location (timeout d)") auto

lemma get_position_Returned:
  assumes "get_position d lg = (Returned p, lg1)"
  obtains r where "stub d Request_get_location (timeout d) = Inr r" "code (status r) = 0"
    "p = \<lparr>latitude = map_option lat (location r), longitude = map_option lon (location r),
                 altitude = map_option alt (location r)\<rparr>" "lg1 = lg"
  using assms
  by (cases d rule: get_position_cases)
     (auto simp: get_position_transport get_position_nonzero get_position_zero)

section \<open>What a refresh does\<close>

lemma refresh_transport:
  "stub (dishy self) Request_get_location (timeout (dishy self)) = Inl (c, details) \<Longrightarrow>
   refresh self w =
     (Raised (RpcError c details), self,
      w\<lparr>logs := logs w @ [(ERROR, gRPC_error_during_request c details)]\<rparr>)"
  by (simp add: refresh_def get_position_transport)

lemma refresh_nonzero:
  "stub (dishy self) Request_get_location (timeout (dishy self)) = Inr r \<Longrightarrow> code (status r) \<noteq> 0 \<Longrightarrow>
   refresh self w =
     (Raised (AttributeError ''NoneType'' ''status''), self,
      w\<lparr>logs := logs w @ [(WARNING, Starlink_request_failed (message (status r)) (code (status r)))]\<rparr>)"
  by (simp add: refresh_def get_position_nonzero)

lemma refresh_no_location:
  "stub (dishy self) Request_get_location (timeout (dishy self)) = Inr r \<Longrightarrow> code (status r) = 0 \<Longrightarrow>
   location r = None \<Longrightarrow>
   refresh self w =
     (Returned PyNone, self\<lparr>dbusservice := setitem ''/Fix'' (PyInt 0) (dbusservice self)\<rparr>,
      w\<lparr>logs := logs w @ [(INFO, No_GPS_fix_available)]\<rparr>)"
  by (simp add: refresh_def get_position_zero)

lemma refresh_location:
  "stub (dishy self) Request_get_location (timeout (dishy self)) = Inr r \<Longrightarrow> code (status r) = 0 \<Longrightarrow>
   location r = Some l \<Longrightarrow> alt l = Finite a \<Longrightarrow>
   refresh self w =
     (Returned PyNone,
      self\<lparr>dbusservice :=
        setitem ''/Position/Altitude'' (PyInt (int_of_float a))
          (setitem ''/Position/Longitude'' (PyFloat (lon l))
            (setitem ''/Position/Latitude'' (PyFloat (lat l))
              (setitem ''/Fix'' (PyInt 1) (dbusservice self))))\<rparr>,
      w\<lparr>logs := logs w @ [(INFO, Updated_position (lat l) (lon l) (alt l))]\<rparr>)"
  by (simp add: refresh_def get_position_zero py_int_def)

lemma refresh_location_raises:
  "stub (dishy self) Request_get_location (timeout (dishy self)) = Inr r \<Longrightarrow> code (status r) = 0 \<Longrightarrow>
   location r = Some l \<Longrightarrow> py_int (Some (alt l)) = Raised e \<Longrightarrow>
   refresh self w =
     (Raised e,
      self\<lparr>dbusservice :=
          setitem ''/Position/Longitude'' (PyFloat (lon l))
            (setitem ''/Position/Latitude'' (PyFloat (lat l))
              (setitem ''/Fix'' (PyInt 1) (dbusservice self)))\<rparr>,
      w)"
  by (simp add: refresh_def get_position_zero)

lemma py_int_cases:
  obtains (finite) a where "x = Finite a" | (raises) e where "py_int (Some x) = Raised e"
  by (cases x) (simp_all add: py_int_def)

lemma refresh_cases:
  obtains (transport) c details where "stub (dishy self) Request_get_location (timeout (dishy self)) = Inl (c, details)"
  | (nonzero) r where "stub (dishy self) Request_get_location (timeout (dishy self)) = Inr r" "code (status r) \<noteq> 0"
  | (no_location) r where "stub (dishy self) Request_get_location (timeout (dishy self)) = Inr r" "code (status r) = 0" "location r = None"
  | (location) r l a where "stub (dishy self) Request_get_location (timeout (dishy self)) = Inr r" "code (status r) = 0" "location r = Some l" "alt l = Finite a"
  | (location_raises) r l e where "stub (dishy self) Request_get_location (timeout (dishy self)) = Inr r" "code (status r) = 0" "location r = Some l" "py_int (Some (alt l)) = Raised e"
proof (cases "dishy self" rule: get_position_cases)
  case (zero r)
  show ?thesis
  proof (cases "location r")
    case None
    with zero show ?thesis by (rule no_location)
  next
    case (Some l)
    show ?thesis
      by (cases "alt l" rule: py_int_cases) (use zero Some location location_raises in blast)+
  qed
qed (use transport nonzero in blast)+

lemmas refresh_eqs = refresh_transport refresh_nonzero refresh_no_location refresh_location
  refresh_location_raises

lemma refresh_dishy: "dishy (fst (snd (refresh self w))) = dishy self"
  by (cases self rule: refresh_cases) (simp_all add: refresh_eqs)

lemma refresh_settings: "settings (fst (snd (refresh self w))) = settings self"
  by (cases self rule: refresh_cases) (simp_all add: refresh_eqs)

lemma refresh_names:
  "service_id (fst (snd (refresh self w))) = service_id self"
  "servicename (fst (snd (refresh self w))) = servicename self"
  "bus_name (dbusservice (fst (snd (refresh self w)))) = bus_name (dbusservice self)"
  by (cases self rule: refresh_cases; simp add: refresh_eqs setitem_def)+

lemma refresh_world:
  "bus (snd (snd (refresh self w))) = bus w"
  "store (snd (snd (refresh self w))) = store w"
  "store_writes (snd (snd (refresh self w))) = store_writes w"
  by (cases self rule: refresh_cases; simp add: refresh_eqs)+

lemma refresh_never_true: "keep_source (fst (refresh self w)) = False"
  by (cases self rule: refresh_cases) (simp_all add: refresh_eqs keep_source_def)


section \<open>Refresh: the claims\<close>

lemma example_stub: "stub (dishy (example_service net)) = net" "timeout (dishy (example_service net)) = 10"
  by (simp_all add: example_service_def Dishy_init_def)

text \<open>
  Claim C2, as the code has it. When the channel fails during a refresh, the failure is
  logged at error level and raised again: \<^verbatim>\<open>refresh\<close> passes the \<^verbatim>\<open>RpcError\<close> on to its
  caller. It has written nothing by then, so the publisher state, and with it fix,
  latitude, longitude and altitude, is the one from before the call.
\<close>

theorem refresh_transport_failure_propagates:
  assumes "stub (dishy self) Request_get_location (timeout (dishy self)) = Inl (c, details)"
  shows "refresh self w =
           (Raised (RpcError c details), self,
            w\<lparr>logs := logs w @ [(ERROR, gRPC_error_during_request c details)]\<rparr>)
         \<and> telemetry (fst (snd (refresh self w))) = telemetry self"
  using assms by (simp add: refresh_transport)

theorem refresh_transport_failure_witness:
  "refresh (example_service timeout_net) w0 =
     (Raised (RpcError DEADLINE_EXCEEDED ''Deadline Exceeded''), example_service timeout_net,
      w0\<lparr>logs := [(ERROR, gRPC_error_during_request DEADLINE_EXCEEDED ''Deadline Exceeded'')]\<rparr>)
   \<and> telemetry (fst (snd (refresh (example_service timeout_net) w0))) =
       (Some (PyInt 1), Some (PyFloat (Finite 37)), Some (PyFloat (Finite (-122))), Some (PyInt 10))"
proof -
  have h: "stub (dishy (example_service timeout_net)) Request_get_location
             (timeout (dishy (example_service timeout_net))) = Inl (DEADLINE_EXCEEDED, ''Deadline Exceeded'')"
    by (simp add: example_stub timeout_net_def)
  have t: "telemetry (example_service timeout_net) =
       (Some (PyInt 1), Some (PyFloat (Finite 37)), Some (PyFloat (Finite (-122))), Some (PyInt 10))"
    by (simp add: telemetry_def example_service_def)
  show ?thesis
    using refresh_transport_failure_propagates [OF h, of w0] t by (simp add: w0_def)
qed

theorem refresh_raises_on_timeout:
  "fst (refresh (example_service timeout_net) w0) = Raised (RpcError DEADLINE_EXCEEDED ''Deadline Exceeded'')"
  by (simp add: refresh_transport example_stub timeout_net_def)

text \<open>
  Claim C5. When the position obtained lacks latitude or longitude, \<^verbatim>\<open>refresh\<close> sets
  the fix flag to 0 and changes no other published field: latitude, longitude and
  altitude keep their values from before the call.
\<close>

theorem refresh_no_fix_frame:
  assumes "get_position (dishy self) (logs w) = (Returned p, lg)"
      and "latitude p = None \<or> longitude p = None"
  shows "refresh self w =
           (Returned PyNone,
            self\<lparr>dbusservice := (dbusservice self)\<lparr>tree := (tree (dbusservice self))(''/Fix'' \<mapsto> PyInt 0)\<rparr>\<rparr>,
            w\<lparr>logs := lg @ [(INFO, No_GPS_fix_available)]\<rparr>)
         \<and> tree (dbusservice (fst (snd (refresh self w)))) ''/Fix'' = Some (PyInt 0)
         \<and> (\<forall>path. path \<noteq> ''/Fix'' \<longrightarrow>
               tree (dbusservice (fst (snd (refresh self w)))) path = tree (dbusservice self) path)"
  using assms by (auto simp: refresh_def setitem_def)

theorem refresh_no_fix_frame_witness:
  "refresh (example_service no_location_net) w0 =
     (Returned PyNone,
      (example_service no_location_net)\<lparr>dbusservice :=
         (dbusservice (example_service no_location_net))\<lparr>tree :=
            (tree (dbusservice (example_service no_location_net)))(''/Fix'' \<mapsto> PyInt 0)\<rparr>\<rparr>,
      w0\<lparr>logs := [(INFO, No_GPS_fix_available)]\<rparr>)
   \<and> telemetry (fst (snd (refresh (example_service no_location_net) w0))) =
       (Some (PyInt 0), Some (PyFloat (Finite 37)), Some (PyFloat (Finite (-122))), Some (PyInt 10))"
proof -
  let ?p = "\<lparr>latitude = None, longitude = None, altitude = None\<rparr>"
  have g: "get_position (dishy (example_service no_location_net)) (logs w0) = (Returned ?p, [])"
    by (simp add: get_position_def make_request_def example_stub no_location_net_def device_def w0_def)
  have h: "latitude ?p = None \<or> longitude ?p = None" by simp
  from refresh_no_fix_frame [OF g h] show ?thesis
    by (simp add: telemetry_def example_service_def)
qed


lemma int_of_float_trunc:
  "\<bar>real_of_int (int_of_float x)\<bar> \<le> \<bar>x\<bar> \<and> \<bar>x\<bar> < \<bar>real_of_int (int_of_float x)\<bar> + 1
   \<and> (0 \<le> x \<longrightarrow> 0 \<le> int_of_float x) \<and> (x \<le> 0 \<longrightarrow> int_of_float x \<le> 0)"
  unfolding int_of_float_def by (auto; linarith)

lemma int_of_float_example: "int_of_float 15.7 = 15" "int_of_float (-15.7) = -15"
  by (simp_all add: int_of_float_def)

text \<open>
  Claim C7, as the code has it. When the position obtained has latitude and longitude,
  the altitude is there too. When that altitude is finite, \<^verbatim>\<open>refresh\<close> sets the fix
  flag to 1, writes latitude and longitude as they are and writes the altitude cut to an
  integer towards zero: the integer is no larger in magnitude than the altitude and
  less than 1 away from it.
\<close>

theorem refresh_fix_truncates_finite_altitude:
  assumes "get_position (dishy self) (logs w) = (Returned p, lg)"
      and "latitude p = Some la" and "longitude p = Some lo"
      and "altitude p \<noteq> Some NaN" and "altitude p \<noteq> Some PosInf" and "altitude p \<noteq> Some NegInf"
  shows "\<exists>al. altitude p = Some (Finite al)
           \<and> refresh self w =
               (Returned PyNone,
                self\<lparr>dbusservice := (dbusservice self)\<lparr>tree :=
                   (tree (dbusservice self))
                     (''/Fix'' \<mapsto> PyInt 1, ''/Position/Latitude'' \<mapsto> PyFloat la,
                      ''/Position/Longitude'' \<mapsto> PyFloat lo,
                      ''/Position/Altitude'' \<mapsto> PyInt (int_of_float al))\<rparr>\<rparr>,
                w\<lparr>logs := lg @ [(INFO, Updated_position la lo (Finite al))]\<rparr>)
           \<and> \<bar>real_of_int (int_of_float al)\<bar> \<le> \<bar>al\<bar>
           \<and> \<bar>al\<bar> < \<bar>real_of_int (int_of_float al)\<bar> + 1"
proof -
  from assms(1) obtain r where r: "stub (dishy self) Request_get_location (timeout (dishy self)) = Inr r"
      "code (status r) = 0"
      "p = \<lparr>latitude = map_option lat (location r), longitude = map_option lon (location r),
                 altitude = map_option alt (location r)\<rparr>" "lg = logs w"
    by (rule get_position_Returned)
  from r(3) assms(2,3) obtain l where l: "location r = Some l" "lat l = la" "lon l = lo"
    by (cases "location r") auto
  have p: "altitude p = Some (alt l)" using r(3) l by simp
  with assms(4,5,6) obtain al where al: "alt l = Finite al"
    by (cases "alt l") simp_all
  have "altitude p = Some (Finite al)" using p al by simp
  moreover have "refresh self w =
               (Returned PyNone,
                self\<lparr>dbusservice := (dbusservice self)\<lparr>tree :=
                   (tree (dbusservice self))
                     (''/Fix'' \<mapsto> PyInt 1, ''/Position/Latitude'' \<mapsto> PyFloat la,
                      ''/Position/Longitude'' \<mapsto> PyFloat lo,
                      ''/Position/Altitude'' \<mapsto> PyInt (int_of_float al))\<rparr>\<rparr>,
                w\<lparr>logs := lg @ [(INFO, Updated_position la lo (Finite al))]\<rparr>)"
    using refresh_location [OF r(1,2) l(1) al, of w] l(2,3) r(4) al by (simp add: setitem_def)
  ultimately show ?thesis using int_of_float_trunc [of al] by blast
qed

theorem refresh_fix_witness:
  "telemetry (fst (snd (refresh (example_service fix_net) w0))) =
      (Some (PyInt 1), Some (PyFloat (Finite 47.6)), Some (PyFloat (Finite (-122.3))), Some (PyInt 15))
   \<and> fst (refresh (example_service fix_net) w0) = Returned PyNone"
proof -
  let ?p = "\<lparr>latitude = Some (Finite 47.6), longitude = Some (Finite (-122.3)), altitude = Some (Finite 15.7)\<rparr>"
  have g: "get_position (dishy (example_service fix_net)) (logs w0) = (Returned ?p, [])"
    by (simp add: get_position_def make_request_def example_stub fix_net_def device_def w0_def)
  have la: "latitude ?p = Some (Finite 47.6)" and lo: "longitude ?p = Some (Finite (-122.3))"
    and n1: "altitude ?p \<noteq> Some NaN" and n2: "altitude ?p \<noteq> Some PosInf"
    and n3: "altitude ?p \<noteq> Some NegInf"
    by simp_all
  from refresh_fix_truncates_finite_altitude [OF g la lo n1 n2 n3] obtain al where
    al: "altitude ?p = Some (Finite al)" and
    r: "refresh (example_service fix_net) w0 =
         (Returned PyNone,
          (example_service fix_net)\<lparr>dbusservice := (dbusservice (example_service fix_net))\<lparr>tree :=
             (tree (dbusservice (example_service fix_net)))
               (''/Fix'' \<mapsto> PyInt 1, ''/Position/Latitude'' \<mapsto> PyFloat (Finite 47.6),
                ''/Position/Longitude'' \<mapsto> PyFloat (Finite (-122.3)),
                ''/Position/Altitude'' \<mapsto> PyInt (int_of_float al))\<rparr>\<rparr>,
          w0\<lparr>logs := [] @ [(INFO, Updated_position (Finite 47.6) (Finite (-122.3)) (Finite al))]\<rparr>)"
    by blast
  from al have "al = 15.7" by simp
  with r show ?thesis
    by (simp add: telemetry_def int_of_float_example)
qed

text \<open>
  With a NaN altitude \<^verbatim>\<open>int()\<close> raises: fix, latitude and longitude are written by
  then, the altitude is not.
\<close>

theorem refresh_fix_nan_altitude_raises:
  "fst (refresh (example_service nan_altitude_net) w0) =
      Raised (ValueError ''cannot convert float NaN to integer'')
   \<and> telemetry (fst (snd (refresh (example_service nan_altitude_net) w0))) =
      (Some (PyInt 1), Some (PyFloat (Finite 47.6)), Some (PyFloat (Finite (-122.3))), Some (PyInt 10))"
proof -
  have r: "refresh (example_service nan_altitude_net) w0 =
      (Raised (ValueError ''cannot convert float NaN to integer''),
       (example_service nan_altitude_net)\<lparr>dbusservice :=
          setitem ''/Position/Longitude'' (PyFloat (Finite (-122.3)))
            (setitem ''/Position/Latitude'' (PyFloat (Finite 47.6))
              (setitem ''/Fix'' (PyInt 1) (dbusservice (example_service nan_altitude_net))))\<rparr>,
       w0)"
    by (simp add: refresh_def get_position_def make_request_def py_int_def example_stub
          nan_altitude_net_def device_def w0_def)
  show ?thesis
    unfolding r by (simp add: telemetry_def setitem_def example_service_def)
qed

text \<open>
  Claim C9. Refreshing twice against the same answers of the device leaves the
  published telemetry (fix, latitude, longitude, altitude) after the second call as it
  was after the first. This holds from every publisher state, reachable or not, and
  whatever was logged in between.
\<close>

theorem refresh_idempotent:
  "telemetry (fst (snd (refresh (fst (snd (refresh self w))) w'))) = telemetry (fst (snd (refresh self w)))"
proof (cases self rule: refresh_cases)
  case (transport c details)
  then show ?thesis by (simp add: refresh_transport)
next
  case (nonzero r)
  then show ?thesis by (simp add: refresh_nonzero)
next
  case (no_location r)
  let ?s = "self\<lparr>dbusservice := setitem ''/Fix'' (PyInt 0) (dbusservice self)\<rparr>"
  have "stub (dishy ?s) Request_get_location (timeout (dishy ?s)) = Inr r"
    using no_location(1) by simp
  from refresh_no_location [OF this no_location(2,3)] refresh_no_location [OF no_location]
  show ?thesis by (simp add: telemetry_def setitem_def)
next
  case (location r l a)
  let ?s = "self\<lparr>dbusservice :=
        setitem ''/Position/Altitude'' (PyInt (int_of_float a))
          (setitem ''/Position/Longitude'' (PyFloat (lon l))
            (setitem ''/Position/Latitude'' (PyFloat (lat l))
              (setitem ''/Fix'' (PyInt 1) (dbusservice self))))\<rparr>"
  have "stub (dishy ?s) Request_get_location (timeout (dishy ?s)) = Inr r"
    using location(1) by simp
  from refresh_location [OF this location(2,3,4)] refresh_location [OF location]
  show ?thesis by (simp add: telemetry_def setitem_def)
next
  case (location_raises r l e)
  let ?s = "self\<lparr>dbusservice :=
          setitem ''/Position/Longitude'' (PyFloat (lon l))
            (setitem ''/Position/Latitude'' (PyFloat (lat l))
              (setitem ''/Fix'' (PyInt 1) (dbusservice self)))\<rparr>"
  have "stub (dishy ?s) Request_get_location (timeout (dishy ?s)) = Inr r"
    using location_raises(1) by simp
  from refresh_location_raises [OF this location_raises(2,3,4)] refresh_location_raises [OF location_raises]
  show ?thesis by (simp add: telemetry_def setitem_def)
qed

text \<open>
  Claim C10. A location response with status 0 and no location gives the position with
  latitude, longitude and altitude all absent, and \<^verbatim>\<open>refresh\<close> then takes the no-fix
  branch: the fix flag becomes 0 and nothing else changes. Whatever position
  \<^verbatim>\<open>get_position\<close> returns has its three fields all present or all absent.
\<close>

theorem success_without_location_is_no_fix:
  "(stub (dishy self) Request_get_location (timeout (dishy self)) = Inr r \<and> code (status r) = 0
      \<and> location r = None \<longrightarrow>
      get_position (dishy self) (logs w) =
        (Returned \<lparr>latitude = None, longitude = None, altitude = None\<rparr>, logs w)
      \<and> refresh self w =
          (Returned PyNone,
           self\<lparr>dbusservice := (dbusservice self)\<lparr>tree := (tree (dbusservice self))(''/Fix'' \<mapsto> PyInt 0)\<rparr>\<rparr>,
           w\<lparr>logs := logs w @ [(INFO, No_GPS_fix_available)]\<rparr>))
   \<and> (get_position d lg = (Returned p, lg1) \<longrightarrow>
        (latitude p = None \<and> longitude p = None \<and> altitude p = None)
        \<or> (latitude p \<noteq> None \<and> longitude p \<noteq> None \<and> altitude p \<noteq> None))"
proof (intro conjI impI)
  assume a: "stub (dishy self) Request_get_location (timeout (dishy self)) = Inr r \<and> code (status r) = 0
      \<and> location r = None"
  then show "get_position (dishy self) (logs w) =
        (Returned \<lparr>latitude = None, longitude = None, altitude = None\<rparr>, logs w)"
    by (simp add: get_position_zero)
  from a show "refresh self w =
          (Returned PyNone,
           self\<lparr>dbusservice := (dbusservice self)\<lparr>tree := (tree (dbusservice self))(''/Fix'' \<mapsto> PyInt 0)\<rparr>\<rparr>,
           w\<lparr>logs := logs w @ [(INFO, No_GPS_fix_available)]\<rparr>)"
    by (simp add: refresh_no_location setitem_def)
next
  assume g: "get_position d lg = (Returned p, lg1)"
  show "(latitude p = None \<and> longitude p = None \<and> altitude p = None)
        \<or> (latitude p \<noteq> None \<and> longitude p \<noteq> None \<and> altitude p \<noteq> None)"
  proof (rule get_position_Returned [OF g])
    fix r
    assume "p = \<lparr>latitude = map_option lat (location r), longitude = map_option lon (location r),
                 altitude = map_option alt (location r)\<rparr>"
    then show ?thesis by (cases "location r") simp_all
  qed
qed

theorem success_without_location_witness:
  "get_position (dishy (example_service no_location_net)) (logs w0) =
     (Returned \<lparr>latitude = None, longitude = None, altitude = None\<rparr>, [])
   \<and> telemetry (fst (snd (refresh (example_service no_location_net) w0))) =
       (Some (PyInt 0), Some (PyFloat (Finite 37)), Some (PyFloat (Finite (-122))), Some (PyInt 10))
   \<and> get_position (dishy (example_service fix_net)) [] =
       (Returned \<lparr>latitude = Some (Finite 47.6), longitude = Some (Finite (-122.3)), altitude = Some (Finite 15.7)\<rparr>, [])"
proof -
  let ?r = "\<lparr>status = \<lparr>code = 0, message = []\<rparr>,
          get_device_info = \<lparr>info_id = ''KU123456789'', software_version = Some ''2024.05.0'',
                             hardware_version = None\<rparr>,
          location = None\<rparr>"
  let ?p = "\<lparr>latitude = Some (Finite 47.6), longitude = Some (Finite (-122.3)), altitude = Some (Finite 15.7)\<rparr>"
  have h: "stub (dishy (example_service no_location_net)) Request_get_location
            (timeout (dishy (example_service no_location_net))) = Inr ?r \<and> code (status ?r) = 0
          \<and> location ?r = None"
    by (simp add: example_stub no_location_net_def device_def)
  have g: "get_position (dishy (example_service fix_net)) [] = (Returned ?p, [])"
    by (simp add: get_position_def make_request_def example_stub fix_net_def device_def)
  from success_without_location_is_no_fix
         [of "example_service no_location_net" ?r w0 "dishy (example_service fix_net)" "[]" ?p "[]"] h g
  show ?thesis
    by (simp add: telemetry_def example_service_def w0_def)
qed

section \<open>The timer\<close>

lemma dispatch_refresh_once:
  "sources (dispatch [(ms, Service_refresh)] m) = []"
  "timer_calls (dispatch [(ms, Service_refresh)] m) = Suc (timer_calls m)"
  using refresh_never_true [of "service m" "world m"]
  by (cases "refresh (service m) (world m)"; simp)+

lemma run_without_sources:
  "sources m = [] \<Longrightarrow> timer_calls (mainloop_run nets m) = timer_calls m \<and> sources (mainloop_run nets m) = []"
  by (induction nets arbitrary: m) simp_all

lemma single_refresh_source:
  assumes "sources m = [(ms, Service_refresh)]"
  shows "timer_calls (mainloop_run (n1 # nets) m) = Suc (timer_calls m)
       \<and> sources (mainloop_run (n1 # nets) m) = []"
proof -
  let ?m1 = "dispatch [(ms, Service_refresh)] (m\<lparr>service := set_net n1 (service m)\<rparr>)"
  have run: "mainloop_run (n1 # nets) m = mainloop_run nets ?m1"
    using assms by (simp del: dispatch.simps)
  have s1: "sources ?m1 = []" and c1: "timer_calls ?m1 = Suc (timer_calls m)"
    by (simp_all add: dispatch_refresh_once del: dispatch.simps)
  from run_without_sources [OF s1, of nets] c1 show ?thesis
    by (simp only: run)
qed

section \<open>Startup\<close>

lemma refresh_frame:
  assumes "refresh s w = (r, s', w')"
  shows "service_id s' = service_id s \<and> servicename s' = servicename s \<and> settings s' = settings s
       \<and> dishy s' = dishy s \<and> bus_name (dbusservice s') = bus_name (dbusservice s)
       \<and> bus w' = bus w \<and> store w' = store w \<and> store_writes w' = store_writes w"
  using refresh_names [of s w] refresh_settings [of s w] refresh_dishy [of s w] refresh_world [of s w] assms
  by simp

lemma setup_settings_eq:
  "setup_settings sid w =
     (\<lparr>setting_path = [''CustomName'' \<mapsto> ''/Settings/Devices/starlink_'' @ sid @ ''/CustomName''],
       setting_value = [''CustomName'' \<mapsto>
          (case store w (''/Settings/Devices/starlink_'' @ sid @ ''/CustomName'') of
             Some v \<Rightarrow> v | None \<Rightarrow> PyStr ''Starlink'')],
       eventCallback = None\<rparr>,
      case store w (''/Settings/Devices/starlink_'' @ sid @ ''/CustomName'') of
        Some v \<Rightarrow> w
      | None \<Rightarrow> store_write (''/Settings/Devices/starlink_'' @ sid @ ''/CustomName'') (PyStr ''Starlink'') w)"
  by (simp add: setup_settings_def SettingsDevice_init_def Let_def split: option.splits)

lemma init_Raised_device_info:
  "Dishy_get_device_info (Dishy_init net tgt) (logs w) = (Raised e, lg) \<Longrightarrow>
   DbusService_init net V tgt w = (Raised e, w\<lparr>logs := lg\<rparr>)"
  by (simp add: DbusService_init_def)

lemma init_Returned:
  assumes "DbusService_init net V tgt w = (Returned self, w1)"
  obtains info lg where
    "Dishy_get_device_info (Dishy_init net tgt) (logs w) = (Returned info, lg)"
    "service_id self = short_id (info_id info)"
    "servicename self = ''com.victronenergy.gps.starlink_'' @ short_id (info_id info)"
    "bus_name (dbusservice self) = servicename self"
    "settings self = fst (setup_settings (short_id (info_id info)) w)"
    "dishy self = Dishy_init net tgt"
    "bus w1 = bus w @ [servicename self]"
    "store w1 = store (snd (setup_settings (short_id (info_id info)) w))"
  using assms
  unfolding DbusService_init_def Let_def setup_settings_eq settings_getitem_def register_def
  by (auto split: prod.splits result.splits option.splits dest!: refresh_frame
           simp: add_path_def add_writeable_path_def VeDbusService_init_def store_write_def)


text \<open>
  Claim C8. When the one-time device-info fetch fails (the channel fails, or the device
  answers with a non-zero status), \<^verbatim>\<open>__init__\<close> raises at once: no publisher object
  comes into being, nothing is registered on the bus, the settings store is untouched,
  and \<^verbatim>\<open>main\<close> ends with the same error before it enters the loop.
\<close>

theorem startup_aborts_when_device_info_fails:
  assumes "fst (Dishy_get_device_info (Dishy_init net tgt) (logs w)) = Raised e"
  shows "fst (DbusService_init net V tgt w) = Raised e
       \<and> bus (snd (DbusService_init net V tgt w)) = bus w
       \<and> store (snd (DbusService_init net V tgt w)) = store w
       \<and> (tgt = ''192.168.100.1:9200'' \<longrightarrow>
            fst (main net V nets w) = Raised e \<and> bus (snd (main net V nets w)) = bus w)"
proof -
  obtain lg where "Dishy_get_device_info (Dishy_init net tgt) (logs w) = (Raised e, lg)"
    using assms by (cases "Dishy_get_device_info (Dishy_init net tgt) (logs w)") simp
  then have "DbusService_init net V tgt w = (Raised e, w\<lparr>logs := lg\<rparr>)"
    by (rule init_Raised_device_info)
  then show ?thesis by (auto simp: main_def)
qed

theorem startup_aborts_witness:
  "fst (DbusService_init timeout_net ''1.0'' ''192.168.100.1:9200'' w0) =
     Raised (RpcError DEADLINE_EXCEEDED ''Deadline Exceeded'')
   \<and> bus (snd (DbusService_init timeout_net ''1.0'' ''192.168.100.1:9200'' w0)) = []
   \<and> fst (main timeout_net ''1.0'' [home_net, home_net] w0) =
     Raised (RpcError DEADLINE_EXCEEDED ''Deadline Exceeded'')
   \<and> bus (snd (main timeout_net ''1.0'' [home_net, home_net] w0)) = []"
proof -
  have h: "fst (Dishy_get_device_info (Dishy_init timeout_net ''192.168.100.1:9200'') (logs w0)) =
      Raised (RpcError DEADLINE_EXCEEDED ''Deadline Exceeded'')"
    by (simp add: Dishy_get_device_info_def make_request_def Dishy_init_def timeout_net_def)
  from startup_aborts_when_device_info_fails [OF h, of "''1.0''" "[home_net, home_net]"]
  show ?thesis by (simp add: w0_def)
qed

section \<open>The short id\<close>

lemma length_digest: "length (digest hs) = 32"
  by (cases hs rule: digest.cases) (simp add: word_bytes_def)

lemma length_hexdigest: "length (hexdigest bs) = 2 * length bs"
  by (induction bs) (simp_all add: hexdigest_def hex_byte_def)

lemma length_short_id: "length (short_id raw) = 8"
  by (simp add: short_id_def length_hexdigest sha256_def length_digest)

lemma hex_digit_range: "hex_digit n \<in> set ''0123456789abcdef''"
proof -
  have "unat (n AND 15) \<le> unat (15 :: byte)"
    by (rule word_and_le1 [THEN word_le_nat_alt [THEN iffD1]])
  then have "unat (n AND 0xF) < length ''0123456789abcdef''" by simp
  then show ?thesis unfolding hex_digit_def by (rule nth_mem)
qed

lemma set_hexdigest: "set (hexdigest bs) \<subseteq> set ''0123456789abcdef''"
proof -
  define H where "H = set ''0123456789abcdef''"
  have h: "hex_digit n \<in> H" for n
    unfolding H_def by (rule hex_digit_range)
  have "set (hexdigest bs) \<subseteq> H"
    by (induction bs) (simp_all add: hexdigest_def hex_byte_def h)
  then show ?thesis unfolding H_def .
qed

lemma set_short_id: "set (short_id raw) \<subseteq> set ''0123456789abcdef''"
  unfolding short_id_def using set_hexdigest set_take_subset by (rule order_trans [rotated])

lemma short_id_KU: "short_id ''KU123456789'' = ''6303b763''"
  by code_simp

lemma example_init:
  "DbusService_init home_net ''1.0'' ''192.168.100.1:9200'' w0 =
     (Returned (example_service home_net), example_world)"
  unfolding DbusService_init_def Let_def setup_settings_eq settings_getitem_def register_def
  apply (simp add: Dishy_get_device_info_def make_request_def Dishy_init_def home_net_def device_def w0_def
      refresh_def get_position_def py_int_def int_of_float_def setitem_def
      add_path_def add_writeable_path_def VeDbusService_init_def store_write_def
      example_service_def example_world_def)
  done


text \<open>
  Claim C6. When \<^verbatim>\<open>__init__\<close> returns for a device whose info carries the id \<open>x\<close>, the
  short id is the first 8 characters of the hexadecimal SHA-256 digest of \<open>x\<close>: 8
  lowercase hexadecimal characters, a function of \<open>x\<close> alone. The service name
  registered on the bus is \<^verbatim>\<open>com.victronenergy.gps.starlink_\<close> followed by it, and the
  one persisted setting lives at \<^verbatim>\<open>/Settings/Devices/starlink_\<close>, the short id,
  \<^verbatim>\<open>/CustomName\<close>.
\<close>

theorem short_id_namespaces_service_and_settings:
  assumes "DbusService_init net V tgt w = (Returned self, w1)"
      and "net Request_get_device_info 10 = Inr r"
  shows "service_id self = take 8 (hexdigest (sha256 (encode (info_id (get_device_info r)))))
       \<and> length (service_id self) = 8
       \<and> set (service_id self) \<subseteq> set ''0123456789abcdef''
       \<and> servicename self = ''com.victronenergy.gps.starlink_'' @ service_id self
       \<and> bus_name (dbusservice self) = servicename self
       \<and> bus w1 = bus w @ [servicename self]
       \<and> dom (setting_path (settings self)) = {''CustomName''}
       \<and> setting_path (settings self) ''CustomName'' =
            Some (''/Settings/Devices/starlink_'' @ service_id self @ ''/CustomName'')
       \<and> store w1 (''/Settings/Devices/starlink_'' @ service_id self @ ''/CustomName'') \<noteq> None"
proof (rule init_Returned [OF assms(1)])
  fix info lg
  assume g: "Dishy_get_device_info (Dishy_init net tgt) (logs w) = (Returned info, lg)"
    and i: "service_id self = short_id (info_id info)"
    and n: "servicename self = ''com.victronenergy.gps.starlink_'' @ short_id (info_id info)"
    and b: "bus_name (dbusservice self) = servicename self"
    and s: "settings self = fst (setup_settings (short_id (info_id info)) w)"
    and w: "bus w1 = bus w @ [servicename self]"
    and st: "store w1 = store (snd (setup_settings (short_id (info_id info)) w))"
  from g assms(2) have "info = get_device_info r"
    by (simp add: Dishy_get_device_info_def make_request_def Dishy_init_def split: if_splits)
  with i have "service_id self = take 8 (hexdigest (sha256 (encode (info_id (get_device_info r)))))"
    by (simp add: short_id_def)
  moreover have "length (service_id self) = 8" "set (service_id self) \<subseteq> set ''0123456789abcdef''"
    unfolding i by (rule length_short_id, rule set_short_id)
  moreover have "dom (setting_path (settings self)) = {''CustomName''}"
    "setting_path (settings self) ''CustomName'' =
            Some (''/Settings/Devices/starlink_'' @ service_id self @ ''/CustomName'')"
    unfolding s i by (simp_all add: setup_settings_eq)
  moreover have "store w1 (''/Settings/Devices/starlink_'' @ service_id self @ ''/CustomName'') \<noteq> None"
    unfolding st i by (simp add: setup_settings_eq store_write_def split: option.splits)
  ultimately show ?thesis using n b w i by simp
qed

theorem short_id_example_witness:
  "service_id (example_service home_net) = ''6303b763''
   \<and> take 8 (hexdigest (sha256 (encode ''KU123456789''))) = ''6303b763''
   \<and> servicename (example_service home_net) = ''com.victronenergy.gps.starlink_6303b763''
   \<and> bus example_world = [''com.victronenergy.gps.starlink_6303b763'']
   \<and> setting_path (settings (example_service home_net)) ''CustomName'' =
        Some ''/Settings/Devices/starlink_6303b763/CustomName''
   \<and> store example_world ''/Settings/Devices/starlink_6303b763/CustomName'' \<noteq> None"
proof -
  let ?r = "\<lparr>status = \<lparr>code = 0, message = []\<rparr>,
          get_device_info = \<lparr>info_id = ''KU123456789'', software_version = Some ''2024.05.0'',
                             hardware_version = None\<rparr>,
          location = Some \<lparr>lat = Finite 37, lon = Finite (-122), alt = Finite 10.4\<rparr>\<rparr>"
  have h: "home_net Request_get_device_info 10 = Inr ?r"
    by (simp add: home_net_def device_def)
  have k: "take 8 (hexdigest (sha256 (encode ''KU123456789''))) = ''6303b763''"
    using short_id_KU by (simp only: short_id_def)
  from short_id_namespaces_service_and_settings [OF example_init h] k
  show ?thesis by (auto simp: w0_def)
qed

section \<open>The custom name\<close>

lemma custom_name_write_raises:
  "call_change_callback (Lambda_handle_writable_setting_change key) p v self w =
     (Raised (AttributeError ''DbusService'' ''_handle_writable_setting_change''), self, w)"
  by (simp add: DbusService_getattr_def)

lemma external_change_settings:
  "eventCallback (settings (fst (external_setting_change path v self w))) = eventCallback (settings self)"
  by (cases "eventCallback (settings self)"; cases "the (eventCallback (settings self))")
     (simp_all add: external_setting_change_def Let_def DbusService_getattr_def)

lemma reachable_no_eventCallback: "reachable self \<Longrightarrow> eventCallback (settings self) = None"
proof (induction rule: reachable.induct)
  case (reachable_init net VERSION tgt w self w1)
  then show ?case
    by (elim init_Returned) (simp add: setup_settings_eq)
next
  case (reachable_refresh self net w)
  then show ?case by (simp add: refresh_settings set_net_def)
next
  case (reachable_external self path v w)
  then show ?case by (simp add: external_change_settings)
qed

text \<open>
  Claim C3, as the code has it. The settings object is created without a change
  callback, so in every reachable publisher state a change of a persisted setting from
  outside runs no code of the driver: the published tree, and with it the custom-name
  field, stays as it was, and the store takes exactly one write, the external one; the
  driver writes nothing back.
\<close>

theorem external_change_is_not_mirrored:
  assumes "reachable self"
  shows "dbusservice (fst (external_setting_change path v self w)) = dbusservice self
       \<and> store (snd (external_setting_change path v self w)) = (store w)(path \<mapsto> v)
       \<and> store_writes (snd (external_setting_change path v self w)) = Suc (store_writes w)"
  using reachable_no_eventCallback [OF assms]
  by (simp add: external_setting_change_def Let_def store_write_def)

theorem external_change_witness:
  "tree (dbusservice (fst (external_setting_change
       (''/Settings/Devices/starlink_'' @ short_id ''KU123456789'' @ ''/CustomName'') (PyStr ''Boat'')
       (example_service home_net) example_world))) ''/CustomName'' = Some (PyStr ''Starlink'')
   \<and> store_writes (snd (external_setting_change
       (''/Settings/Devices/starlink_'' @ short_id ''KU123456789'' @ ''/CustomName'') (PyStr ''Boat'')
       (example_service home_net) example_world)) = 2"
proof -
  have r: "reachable (example_service home_net)"
    using example_init by (rule reachable_init)
  from external_change_is_not_mirrored [OF r,
      of "''/Settings/Devices/starlink_'' @ short_id ''KU123456789'' @ ''/CustomName''" "PyStr ''Boat''" example_world]
  show ?thesis by (simp add: example_service_def example_world_def)
qed

theorem external_change_leaves_published_name:
  "tree (dbusservice (fst (external_setting_change
       (''/Settings/Devices/starlink_'' @ short_id ''KU123456789'' @ ''/CustomName'') (PyStr ''Boat'')
       (example_service home_net) example_world))) ''/CustomName'' = Some (PyStr ''Starlink'')
   \<and> store (snd (external_setting_change
       (''/Settings/Devices/starlink_'' @ short_id ''KU123456789'' @ ''/CustomName'') (PyStr ''Boat'')
       (example_service home_net) example_world))
       (''/Settings/Devices/starlink_'' @ short_id ''KU123456789'' @ ''/CustomName'') = Some (PyStr ''Boat'')"
  by (simp add: external_setting_change_def Let_def store_write_def example_service_def example_world_def)


section \<open>The scheduler\<close>

text \<open>
  Claim C4. The timer should call \<^verbatim>\<open>refresh\<close> at every expiry. \<^verbatim>\<open>refresh\<close> has no
  \<^verbatim>\<open>return\<close> statement, so it gives \<^verbatim>\<open>None\<close> (or raises) and the source is dropped at
  its first expiry: after two or more expiries the timer has called \<^verbatim>\<open>refresh\<close> once,
  and no source is left after the first. So it is for \<^verbatim>\<open>main\<close> against a device that
  answers every request with status 0 and a location, over two expiries.
\<close>

theorem timer_calls_refresh_only_once:
  "timer_calls (mainloop_run (n1 # n2 # nets)
      (timeout_add 60000 Service_refresh
         \<lparr>service = self, world = w, sources = [], timer_calls = 0\<rparr>)) = 1
   \<and> sources (mainloop_run [n1]
      (timeout_add 60000 Service_refresh
         \<lparr>service = self, world = w, sources = [], timer_calls = 0\<rparr>)) = []
   \<and> (\<exists>m w1. main home_net ''1.0'' [home_net, home_net] w0 = (Returned m, w1)
         \<and> timer_calls m = 1 \<and> sources m = [])"
proof -
  let ?m0 = "timeout_add 60000 Service_refresh
         \<lparr>service = self, world = w, sources = [], timer_calls = 0\<rparr>"
  have s0: "sources ?m0 = [(60000, Service_refresh)]" and c0: "timer_calls ?m0 = 0"
    by (simp_all add: timeout_add_def)
  let ?e = "(timeout_add 60000 Service_refresh
         \<lparr>service = example_service home_net, world = example_world, sources = [], timer_calls = 0\<rparr>)
         \<lparr>world := example_world\<lparr>logs := logs example_world @ [(INFO, Service_started_entering_main_loop)]\<rparr>\<rparr>"
  have se: "sources ?e = [(60000, Service_refresh)]" and ce: "timer_calls ?e = 0"
    by (simp_all add: timeout_add_def)
  have "main home_net ''1.0'' [home_net, home_net] w0 =
          (Returned (mainloop_run [home_net, home_net] ?e), world (mainloop_run [home_net, home_net] ?e))"
    by (simp add: main_def example_init Let_def timeout_add_def del: mainloop_run.simps)
  with single_refresh_source [OF se, of home_net "[home_net]"] ce
  have "\<exists>m w1. main home_net ''1.0'' [home_net, home_net] w0 = (Returned m, w1)
         \<and> timer_calls m = 1 \<and> sources m = []"
    by simp
  with single_refresh_source [OF s0, of n1 "n2 # nets"] single_refresh_source [OF s0, of n1 "[]"] c0
  show ?thesis by simp
qed

end
